theory Spec2Isabelle
  imports Complex_Main "HOL-Library.List_Lexorder" "HOL-Library.Char_ord"
begin

section \<open>The launch records dashboard (spacex-dash-app.py)\<close>

text \<open>
  The program reads a table of launch records once, computes the payload bounds of the
  range slider from it, and registers two callbacks: \<open>update_pie\<close> (input: the site
  dropdown) and \<open>update_scatter\<close> (inputs: the site dropdown and the payload slider).
  Each callback selects rows of the table with pandas and hands the resulting frame to a
  plotly express constructor.

  The embedding keeps the table row by row. A cell of the column \<open>Launch Site\<close> is a
  string, a cell of \<open>Payload Mass (kg)\<close> is a finite number (a rational: comparison and
  truncation of a finite float are exact), a cell of \<open>class\<close> is an integer. Missing
  cells (NaN) are outside this data model, except for the NaN that pandas itself produces:
  the maximum of an empty column, and the label of a class that is neither 0 nor 1.
\<close>

subsection \<open>Data model\<close>

record launch =
  launch_site :: string
  payload_mass :: rat
  launch_class :: int
  booster_version_category :: string

type_synonym dataset = "launch list"

text \<open>The exceptions of the modelled code paths: \<open>int(nan)\<close> and a failed unpacking
  both raise \<open>ValueError\<close>; an object of the wrong kind behind a name is a \<open>TypeError\<close>.\<close>

datatype error = ValueError | TypeError

text \<open>A plotly figure, reduced to the data it was built from and its title.\<close>

record 'd figure =
  fig_data :: 'd
  fig_title :: string

text \<open>A pie figure carries one (label, value) pair per row of the frame given to
  \<open>px.pie\<close>; a label is \<open>None\<close> where the names column holds NaN. A scatter figure
  carries the rows of the frame given to \<open>px.scatter\<close>, in frame order.\<close>

type_synonym pie_fig = "(string option \<times> nat) list figure"
type_synonym scatter_fig = "launch list figure"

subsection \<open>Loading: payload bounds (lines 19--21)\<close>







subsection \<open>pandas operations used by the callbacks\<close>

text \<open>\<open>frame.groupby(key).size().reset_index(name=...)\<close>: one row per distinct key of the
  frame with the number of rows carrying it. \<open>groupby\<close> is called with its defaults, so
  \<open>sort=True\<close>: the group keys come out in ascending order.\<close>

definition groupby_size :: "('r \<Rightarrow> 'k::linorder) \<Rightarrow> 'r list \<Rightarrow> ('k \<times> nat) list" where
  "groupby_size key rows =
     map (\<lambda>k. (k, length (filter (\<lambda>r. key r = k) rows))) (sort (remdups (map key rows)))"

text \<open>\<open>df['class'].map({1: 'Success', 0: 'Failure'})\<close>: NaN for any other class.\<close>

definition outcome_label :: "int \<Rightarrow> string option" where
  "outcome_label c = (if c = 1 then Some ''Success'' else if c = 0 then Some ''Failure'' else None)"

subsection \<open>Figure styling (lines 290--309)\<close>

text \<open>Of \<open>apply_dark_style\<close> only the title reaches the model: \<open>title_text or\<close> the
  title the figure already has. (The alternative \<open>None\<close> of line 298 is for a figure
  without a title object; a figure built by plotly express has one.)\<close>

definition apply_dark_style :: "'d figure \<Rightarrow> string \<Rightarrow> 'd figure" where
  "apply_dark_style fig title_text =
     fig\<lparr>fig_title := (if title_text \<noteq> [] then title_text else fig_title fig)\<rparr>"

text \<open>The em dash of the titles, as its UTF-8 bytes.\<close>

definition em_dash :: string where
  "em_dash = [CHR 0xE2, CHR 0x80, CHR 0x94]"

subsection \<open>The figures (lines 327--331, 337--341, 369--393)\<close>

text \<open>\<open>px.pie(df, values='success_count', names='Launch Site', ...)\<close> followed by the
  styling.\<close>

definition pie_by_site :: "(string \<times> nat) list \<Rightarrow> pie_fig" where
  "pie_by_site df =
     apply_dark_style
       \<lparr>fig_data = map (\<lambda>(s, n). (Some s, n)) df,
        fig_title = ''Successful Launches by Site''\<rparr>
       ''Successful Launches by Site (All Sites)''"

text \<open>\<open>px.pie(df, values='count', names='outcome', ...)\<close> followed by the styling.\<close>

definition pie_by_outcome :: "string \<Rightarrow> (int \<times> nat \<times> string option) list \<Rightarrow> pie_fig" where
  "pie_by_outcome entered_site df =
     apply_dark_style
       \<lparr>fig_data = map (\<lambda>(c, n, outcome). (outcome, n)) df,
        fig_title = ''Success vs Failure '' @ em_dash @ '' '' @ entered_site\<rparr>
       (''Success vs Failure '' @ em_dash @ '' '' @ entered_site)"

text \<open>\<open>px.scatter(dff, x="Payload Mass (kg)", y="class", ...)\<close> followed by the
  styling.\<close>

definition payload_scatter :: "string \<Rightarrow> launch list \<Rightarrow> scatter_fig" where
  "payload_scatter entered_site dff =
     apply_dark_style
       \<lparr>fig_data = dff,
        fig_title = ''Payload vs Mission Outcome by Booster Version''\<rparr>
       (''Payload vs Mission Outcome'' @
          (if entered_site \<noteq> ''ALL'' then '' '' @ em_dash @ '' '' @ entered_site else []))"

subsection \<open>The pie callback (lines 315--345)\<close>

text \<open>The callbacks are given first as functions of the contents of \<open>spacex_df\<close>; the
  objects they create and write are made explicit further down.

  Line 326: the rows of class 1, grouped by launch site.\<close>

definition success_count :: "dataset \<Rightarrow> (string \<times> nat) list" where
  "success_count spacex_df =
     groupby_size launch_site (filter (\<lambda>r. launch_class r = 1) spacex_df)"

text \<open>Line 336: the column \<open>outcome\<close> added to the grouped frame.\<close>

definition with_outcome :: "(int \<times> nat) list \<Rightarrow> (int \<times> nat \<times> string option) list" where
  "with_outcome df = map (\<lambda>(c, n). (c, n, outcome_label c)) df"

text \<open>Lines 334--336: the rows of one site grouped by class, with the added column.\<close>

definition outcome_count :: "dataset \<Rightarrow> string \<Rightarrow> (int \<times> nat \<times> string option) list" where
  "outcome_count spacex_df entered_site =
     with_outcome
       (groupby_size launch_class (filter (\<lambda>r. launch_site r = entered_site) spacex_df))"

definition update_pie :: "dataset \<Rightarrow> string \<Rightarrow> pie_fig" where
  "update_pie spacex_df entered_site =
     (if entered_site = ''ALL'' then pie_by_site (success_count spacex_df)
      else pie_by_outcome entered_site (outcome_count spacex_df entered_site))"

subsection \<open>The scatter callback (lines 348--395)\<close>

text \<open>\<open>low, high = selected_payload\<close> raises \<open>ValueError\<close> unless the value has exactly
  two elements. The payload filter comes first, then the site filter.\<close>

definition update_scatter :: "dataset \<Rightarrow> string \<Rightarrow> rat list \<Rightarrow> error + scatter_fig" where
  "update_scatter spacex_df entered_site selected_payload =
     (case selected_payload of
        [low, high] \<Rightarrow>
          (let dff = filter (\<lambda>r. payload_mass r \<ge> low \<and> payload_mass r \<le> high) spacex_df;
               dff = (if entered_site \<noteq> ''ALL''
                      then filter (\<lambda>r. launch_site r = entered_site) dff else dff)
           in Inr (payload_scatter entered_site dff))
      | _ \<Rightarrow> Inl ValueError)"

subsection \<open>Callback wiring (lines 315--318 and 348--352)\<close>

text \<open>The values of the two input components. Dash calls each callback with the values of
  the inputs it declares: the pie callback declares the dropdown only.\<close>

record selection =
  site_dropdown :: string
  slider_payload :: "rat list"


definition success_payload_scatter_chart :: "dataset \<Rightarrow> selection \<Rightarrow> error + scatter_fig" where
  "success_payload_scatter_chart spacex_df sel =
     update_scatter spacex_df (site_dropdown sel) (slider_payload sel)"

subsection \<open>The callbacks on the program's objects\<close>

text \<open>
  \<open>spacex_df\<close> is a module-level name for one frame object, and pandas distinguishes
  operations that build a new frame from operations that write into an existing one.
  Selecting rows with a boolean mask and \<open>groupby(...).size().reset_index(...)\<close> build new
  frames; the column assignment of line 336 writes into the frame it is applied to. The
  objects of the program are kept in a list, an object's identity being its position; a
  new object goes to the end.
\<close>

datatype frame =
    Launches "launch list"
  | Site_counts "(string \<times> nat) list"
  | Class_counts "(int \<times> nat) list"
  | Outcome_counts "(int \<times> nat \<times> string option) list"

record app_state =
  frames :: "frame list"
  spacex_df :: nat

text \<open>Line 19: the table becomes the first object, and \<open>spacex_df\<close> names it.\<close>

definition read_csv :: "launch list \<Rightarrow> app_state" where
  "read_csv rows = \<lparr>frames = [Launches rows], spacex_df = 0\<rparr>"

definition new_frame :: "frame \<Rightarrow> frame list \<Rightarrow> nat \<times> frame list" where
  "new_frame f fs = (length fs, fs @ [f])"

definition frame_at :: "frame list \<Rightarrow> nat \<Rightarrow> error + frame" where
  "frame_at fs i = (if i < length fs then Inr (fs ! i) else Inl TypeError)"

definition launches_of :: "frame list \<Rightarrow> nat \<Rightarrow> error + launch list" where
  "launches_of fs i =
     (case frame_at fs i of
        Inr (Launches rows) \<Rightarrow> Inr rows
      | _ \<Rightarrow> Inl TypeError)"

text \<open>Line 336, \<open>df['outcome'] = df['class'].map(...)\<close>: the object \<open>df\<close> itself changes.\<close>

definition set_outcome :: "nat \<Rightarrow> frame list \<Rightarrow> error + frame list" where
  "set_outcome df fs =
     (case frame_at fs df of
        Inr (Class_counts counts) \<Rightarrow> Inr (fs[df := Outcome_counts (with_outcome counts)])
      | _ \<Rightarrow> Inl TypeError)"

definition run_update_pie :: "string \<Rightarrow> app_state \<Rightarrow> error + pie_fig \<times> app_state" where
  "run_update_pie entered_site st =
     (case launches_of (frames st) (spacex_df st) of
        Inl e \<Rightarrow> Inl e
      | Inr rows \<Rightarrow>
          if entered_site = ''ALL'' then
            (let (selected, fs1) =
                   new_frame (Launches (filter (\<lambda>r. launch_class r = 1) rows)) (frames st);
                 (df, fs2) =
                   new_frame (Site_counts (groupby_size launch_site
                     (filter (\<lambda>r. launch_class r = 1) rows))) fs1
             in case frame_at fs2 df of
                  Inr (Site_counts counts) \<Rightarrow> Inr (pie_by_site counts, st\<lparr>frames := fs2\<rparr>)
                | _ \<Rightarrow> Inl TypeError)
          else
            (let (selected, fs1) =
                   new_frame (Launches (filter (\<lambda>r. launch_site r = entered_site) rows))
                     (frames st);
                 (df, fs2) =
                   new_frame (Class_counts (groupby_size launch_class
                     (filter (\<lambda>r. launch_site r = entered_site) rows))) fs1
             in case set_outcome df fs2 of
                  Inl e \<Rightarrow> Inl e
                | Inr fs3 \<Rightarrow>
                    (case frame_at fs3 df of
                       Inr (Outcome_counts counts) \<Rightarrow>
                         Inr (pie_by_outcome entered_site counts, st\<lparr>frames := fs3\<rparr>)
                     | _ \<Rightarrow> Inl TypeError)))"

definition run_update_scatter ::
  "string \<Rightarrow> rat list \<Rightarrow> app_state \<Rightarrow> error + scatter_fig \<times> app_state" where
  "run_update_scatter entered_site selected_payload st =
     (case selected_payload of
        [low, high] \<Rightarrow>
          (case launches_of (frames st) (spacex_df st) of
             Inl e \<Rightarrow> Inl e
           | Inr rows \<Rightarrow>
               (let (dff, fs1) =
                      new_frame (Launches (filter (\<lambda>r. payload_mass r \<ge> low \<and>
                        payload_mass r \<le> high) rows)) (frames st)
                in case launches_of fs1 dff of
                     Inl e \<Rightarrow> Inl e
                   | Inr in_range \<Rightarrow>
                       if entered_site \<noteq> ''ALL'' then
                         (let (dff, fs2) =
                                new_frame (Launches (filter (\<lambda>r. launch_site r = entered_site)
                                  in_range)) fs1
                          in case launches_of fs2 dff of
                               Inl e \<Rightarrow> Inl e
                             | Inr of_site \<Rightarrow>
                                 Inr (payload_scatter entered_site of_site, st\<lparr>frames := fs2\<rparr>))
                       else Inr (payload_scatter entered_site in_range, st\<lparr>frames := fs1\<rparr>)))
      | _ \<Rightarrow> Inl ValueError)"

subsection \<open>First-seen order, as the specification words it\<close>

text \<open>The specification describes the groups of the pie as coming in the order in which
  their keys first occur in the filtered table. This is that order, for comparison with
  what \<open>groupby_size\<close> produces.\<close>

fun first_seen :: "'a list \<Rightarrow> 'a list" where
  "first_seen [] = []"
| "first_seen (x # xs) = x # filter (\<lambda>y. y \<noteq> x) (first_seen xs)"

definition first_seen_labels :: "dataset \<Rightarrow> string \<Rightarrow> string option list" where
  "first_seen_labels rows entered_site =
     (if entered_site = ''ALL''
      then map Some (first_seen (map launch_site (filter (\<lambda>r. launch_class r = 1) rows)))
      else map outcome_label
             (first_seen (map launch_class (filter (\<lambda>r. launch_site r = entered_site) rows))))"

subsection \<open>A small table for concrete runs\<close>

definition example_launches :: dataset where
  "example_launches =
     [\<lparr>launch_site = ''VAFB SLC-4E'', payload_mass = 500, launch_class = 1,
        booster_version_category = ''v1.1''\<rparr>,
      \<lparr>launch_site = ''CCAFS LC-40'', payload_mass = 500, launch_class = 1,
        booster_version_category = ''v1.0''\<rparr>,
      \<lparr>launch_site = ''CCAFS LC-40'', payload_mass = 900, launch_class = 0,
        booster_version_category = ''v1.0''\<rparr>,
      \<lparr>launch_site = ''KSC LC-39A'', payload_mass = 3696, launch_class = 0,
        booster_version_category = ''FT''\<rparr>]"

section \<open>Properties\<close>

subsection \<open>Grouping\<close>

lemma groupby_size_keys:
  "map fst (groupby_size key rows) = sort (remdups (map key rows))"
  by (simp add: groupby_size_def comp_def)

lemma groupby_size_keys_set:
  "fst ` set (groupby_size key rows) = key ` set rows"
  using groupby_size_keys [of key rows]
  by (metis list.set_map set_remdups set_sort)

lemma groupby_size_count:
  "(k, n) \<in> set (groupby_size key rows) \<Longrightarrow> n = length (filter (\<lambda>r. key r = k) rows)"
  by (auto simp: groupby_size_def)

lemma groupby_size_member:
  "(k, n) \<in> set (groupby_size key rows) \<Longrightarrow> k \<in> key ` set rows"
  by (auto simp: groupby_size_def)

lemma groupby_size_positive:
  assumes "(k, n) \<in> set (groupby_size key rows)"
  shows "0 < n"
proof -
  from assms have "k \<in> key ` set rows" by (rule groupby_size_member)
  then obtain r where "r \<in> set rows" "key r = k" by auto
  then have "filter (\<lambda>r. key r = k) rows \<noteq> []"
    by (auto simp: filter_empty_conv)
  with groupby_size_count [OF assms] show ?thesis by simp
qed

lemma length_filter_key_count:
  "length (filter (\<lambda>r. key r = k) rows) = count_list (map key rows) k"
  by (induction rows) auto

lemma groupby_size_total:
  "sum_list (map snd (groupby_size key rows)) = length rows"
proof -
  let ?ks = "sort (remdups (map key rows))"
  have d: "distinct ?ks" by simp
  have s: "set ?ks = set (map key rows)" by simp
  have "sum_list (map snd (groupby_size key rows)) = sum_list (map (count_list (map key rows)) ?ks)"
    by (simp add: groupby_size_def comp_def length_filter_key_count)
  also have "\<dots> = sum (count_list (map key rows)) (set ?ks)"
    using d by (rule sum_list_distinct_conv_sum_set)
  also have "\<dots> = length (map key rows)"
    unfolding s by (rule sum_count_set) simp_all
  finally show ?thesis by simp
qed

lemma groupby_size_sorted:
  "sorted (map fst (groupby_size key rows))" "distinct (map fst (groupby_size key rows))"
  by (simp_all add: groupby_size_keys)

lemma groupby_size_Nil [simp]: "groupby_size key [] = []"
  by (simp add: groupby_size_def)

subsection \<open>What the callbacks compute\<close>

lemma fig_data_apply_dark_style [simp]:
  "fig_data (apply_dark_style fig title_text) = fig_data fig"
  by (simp add: apply_dark_style_def)




lemma update_pie_all_data:
  "fig_data (update_pie D ''ALL'') =
     map (\<lambda>(s, n). (Some s, n)) (groupby_size launch_site (filter (\<lambda>r. launch_class r = 1) D))"
  by (simp add: update_pie_def pie_by_site_def success_count_def)

lemma update_pie_site_data:
  "site \<noteq> ''ALL'' \<Longrightarrow>
   fig_data (update_pie D site) =
     map (\<lambda>(c, n). (outcome_label c, n))
       (groupby_size launch_class (filter (\<lambda>r. launch_site r = site) D))"
  by (simp add: update_pie_def pie_by_outcome_def outcome_count_def with_outcome_def comp_def
      case_prod_unfold)

lemma snd_relabel: "map snd (map (\<lambda>(k, n). (f k, n)) xs) = map snd xs"
  by (induction xs) auto

text \<open>
  C2. For the selection \<open>ALL\<close> the values of the pie add up to the number of rows of
  the table whose class is 1. Every slice is labelled with a site and its value counts the
  rows of that site whose class is 1: a row of class 0 is counted nowhere.
\<close>

theorem update_pie_all_sums_to_successes:
  "sum_list (map snd (fig_data (update_pie D ''ALL''))) =
     length (filter (\<lambda>r. launch_class r = 1) D) \<and>
   (\<forall>(label, n) \<in> set (fig_data (update_pie D ''ALL'')).
      \<exists>s. label = Some s \<and>
          n = length (filter (\<lambda>r. launch_site r = s \<and> launch_class r = 1) D))"
proof
  show "sum_list (map snd (fig_data (update_pie D ''ALL''))) =
     length (filter (\<lambda>r. launch_class r = 1) D)"
    by (simp only: update_pie_all_data snd_relabel groupby_size_total)
next
  show "\<forall>(label, n) \<in> set (fig_data (update_pie D ''ALL'')).
      \<exists>s. label = Some s \<and>
          n = length (filter (\<lambda>r. launch_site r = s \<and> launch_class r = 1) D)"
  proof (clarify)
    fix label n
    assume "(label, n) \<in> set (fig_data (update_pie D ''ALL''))"
    then obtain s where l: "label = Some s"
      and m: "(s, n) \<in> set (groupby_size launch_site (filter (\<lambda>r. launch_class r = 1) D))"
      by (auto simp: update_pie_all_data)
    from groupby_size_count [OF m]
    have "n = length (filter (\<lambda>r. launch_site r = s \<and> launch_class r = 1) D)"
      by (simp add: conj_commute)
    with l show "\<exists>s. label = Some s \<and>
          n = length (filter (\<lambda>r. launch_site r = s \<and> launch_class r = 1) D)"
      by blast
  qed
qed

theorem update_pie_all_sums_to_successes_witness:
  "fig_data (update_pie example_launches ''ALL'') \<noteq> [] \<and>
   sum_list (map snd (fig_data (update_pie example_launches ''ALL''))) = 2"
proof -
  have "fig_data (update_pie example_launches ''ALL'') =
     [(Some ''CCAFS LC-40'', 1), (Some ''VAFB SLC-4E'', 1)]"
    by code_simp
  moreover have "length (filter (\<lambda>r. launch_class r = 1) example_launches) = 2"
    by (simp add: example_launches_def)
  moreover note update_pie_all_sums_to_successes [of example_launches, THEN conjunct1]
  ultimately show ?thesis by simp
qed



text \<open>
  C4. A site without a row of class 1 labels no slice of the pie for \<open>ALL\<close>, and no slice
  of that pie has the value 0: such a site is left out, not shown as an empty slice.
\<close>

theorem update_pie_all_omits_sites_without_success:
  assumes "\<not> (\<exists>r \<in> set D. launch_site r = s \<and> launch_class r = 1)"
  shows "Some s \<notin> fst ` set (fig_data (update_pie D ''ALL'')) \<and>
         0 \<notin> snd ` set (fig_data (update_pie D ''ALL''))"
proof
  show "Some s \<notin> fst ` set (fig_data (update_pie D ''ALL''))"
  proof
    assume "Some s \<in> fst ` set (fig_data (update_pie D ''ALL''))"
    then obtain n where
      "(s, n) \<in> set (groupby_size launch_site (filter (\<lambda>r. launch_class r = 1) D))"
      by (auto simp: update_pie_all_data)
    then have "s \<in> launch_site ` set (filter (\<lambda>r. launch_class r = 1) D)"
      by (rule groupby_size_member)
    with assms show False by auto
  qed
next
  show "0 \<notin> snd ` set (fig_data (update_pie D ''ALL''))"
  proof
    assume "0 \<in> snd ` set (fig_data (update_pie D ''ALL''))"
    then obtain s where
      "(s, 0) \<in> set (groupby_size launch_site (filter (\<lambda>r. launch_class r = 1) D))"
      by (auto simp: update_pie_all_data)
    then have "(0::nat) < 0" by (rule groupby_size_positive)
    then show False by simp
  qed
qed

theorem update_pie_all_omits_sites_without_success_witness:
  "''KSC LC-39A'' \<in> launch_site ` set example_launches \<and>
   \<not> (\<exists>r \<in> set example_launches. launch_site r = ''KSC LC-39A'' \<and> launch_class r = 1) \<and>
   Some ''KSC LC-39A'' \<notin> fst ` set (fig_data (update_pie example_launches ''ALL'')) \<and>
   0 \<notin> snd ` set (fig_data (update_pie example_launches ''ALL''))"
proof -
  have a: "\<not> (\<exists>r \<in> set example_launches. launch_site r = ''KSC LC-39A'' \<and> launch_class r = 1)"
    by (simp add: example_launches_def)
  have b: "''KSC LC-39A'' \<in> launch_site ` set example_launches"
    by (simp add: example_launches_def)
  from update_pie_all_omits_sites_without_success [OF a] a b show ?thesis by blast
qed




subsection \<open>Payload bounds\<close>








text \<open>
  C6, as stated, does not hold. In a table whose first success is at VAFB SLC-4E and whose
  second is at CCAFS LC-40, the pie for \<open>ALL\<close> lists CCAFS LC-40 first; and for the site
  CCAFS LC-40, whose first row is a success and whose second a failure, the pie lists
  Failure first.
\<close>

theorem pie_groups_not_in_first_seen_order:
  "map fst (fig_data (update_pie
     [\<lparr>launch_site = ''VAFB SLC-4E'', payload_mass = 500, launch_class = 1,
        booster_version_category = ''v1.1''\<rparr>,
      \<lparr>launch_site = ''CCAFS LC-40'', payload_mass = 500, launch_class = 1,
        booster_version_category = ''v1.0''\<rparr>,
      \<lparr>launch_site = ''CCAFS LC-40'', payload_mass = 900, launch_class = 0,
        booster_version_category = ''v1.0''\<rparr>] ''ALL'')) =
     [Some ''CCAFS LC-40'', Some ''VAFB SLC-4E''] \<and>
   first_seen_labels
     [\<lparr>launch_site = ''VAFB SLC-4E'', payload_mass = 500, launch_class = 1,
        booster_version_category = ''v1.1''\<rparr>,
      \<lparr>launch_site = ''CCAFS LC-40'', payload_mass = 500, launch_class = 1,
        booster_version_category = ''v1.0''\<rparr>,
      \<lparr>launch_site = ''CCAFS LC-40'', payload_mass = 900, launch_class = 0,
        booster_version_category = ''v1.0''\<rparr>] ''ALL'' =
     [Some ''VAFB SLC-4E'', Some ''CCAFS LC-40''] \<and>
   map fst (fig_data (update_pie
     [\<lparr>launch_site = ''VAFB SLC-4E'', payload_mass = 500, launch_class = 1,
        booster_version_category = ''v1.1''\<rparr>,
      \<lparr>launch_site = ''CCAFS LC-40'', payload_mass = 500, launch_class = 1,
        booster_version_category = ''v1.0''\<rparr>,
      \<lparr>launch_site = ''CCAFS LC-40'', payload_mass = 900, launch_class = 0,
        booster_version_category = ''v1.0''\<rparr>] ''CCAFS LC-40'')) =
     [Some ''Failure'', Some ''Success''] \<and>
   first_seen_labels
     [\<lparr>launch_site = ''VAFB SLC-4E'', payload_mass = 500, launch_class = 1,
        booster_version_category = ''v1.1''\<rparr>,
      \<lparr>launch_site = ''CCAFS LC-40'', payload_mass = 500, launch_class = 1,
        booster_version_category = ''v1.0''\<rparr>,
      \<lparr>launch_site = ''CCAFS LC-40'', payload_mass = 900, launch_class = 0,
        booster_version_category = ''v1.0''\<rparr>] ''CCAFS LC-40'' =
     [Some ''Success'', Some ''Failure'']"
  by code_simp

lemma fst_relabel: "map fst (map (\<lambda>(k, n). (f k, n)) xs) = map f (map fst xs)"
  by (induction xs) auto

text \<open>
  C6, amended. The groups of the pie come in ascending order of the grouping key, each key
  once: the sites having a row of class 1 in ascending string order for \<open>ALL\<close>, and
  otherwise the classes of the site's rows in ascending numeric order, shown by their
  outcome labels. The order does not depend on the position of the rows nor on the counts.
\<close>

theorem pie_groups_in_ascending_key_order:
  "map fst (fig_data (update_pie D site)) =
     (if site = ''ALL''
      then map Some (sorted_list_of_set (launch_site ` {r \<in> set D. launch_class r = 1}))
      else map outcome_label (sorted_list_of_set (launch_class ` {r \<in> set D. launch_site r = site})))"
proof (cases "site = ''ALL''")
  case True
  have "set (map launch_site (filter (\<lambda>r. launch_class r = 1) D)) =
          launch_site ` {r \<in> set D. launch_class r = 1}"
    by auto
  then have "sort (remdups (map launch_site (filter (\<lambda>r. launch_class r = 1) D))) =
          sorted_list_of_set (launch_site ` {r \<in> set D. launch_class r = 1})"
    by (simp only: sorted_list_of_set_sort_remdups [symmetric])
  then have "map fst (fig_data (update_pie D ''ALL'')) =
          map Some (sorted_list_of_set (launch_site ` {r \<in> set D. launch_class r = 1}))"
    by (simp only: update_pie_all_data fst_relabel groupby_size_keys)
  with True show ?thesis by simp
next
  case False
  have "set (map launch_class (filter (\<lambda>r. launch_site r = site) D)) =
          launch_class ` {r \<in> set D. launch_site r = site}"
    by auto
  then have "sort (remdups (map launch_class (filter (\<lambda>r. launch_site r = site) D))) =
          sorted_list_of_set (launch_class ` {r \<in> set D. launch_site r = site})"
    by (simp only: sorted_list_of_set_sort_remdups [symmetric])
  then have "map fst (fig_data (update_pie D site)) =
          map outcome_label (sorted_list_of_set (launch_class ` {r \<in> set D. launch_site r = site}))"
    by (simp only: update_pie_site_data [OF False] fst_relabel groupby_size_keys)
  with False show ?thesis by simp
qed




subsection \<open>Objects\<close>

lemma frame_at_new: "frame_at (fs @ [f]) (length fs) = Inr f"
  by (simp add: frame_at_def)

lemma frame_at_append:
  "frame_at fs i = Inr f \<Longrightarrow> frame_at (fs @ added) i = Inr f"
  by (auto simp: frame_at_def nth_append split: if_splits)

lemma launches_of_new: "launches_of (fs @ [Launches rows]) (length fs) = Inr rows"
  by (simp add: launches_of_def frame_at_new)

lemma launches_of_frame_at:
  "launches_of fs i = Inr rows \<longleftrightarrow> frame_at fs i = Inr (Launches rows)"
  by (auto simp: launches_of_def split: sum.splits frame.splits)

lemma launches_of_append:
  "launches_of fs i = Inr rows \<Longrightarrow> launches_of (fs @ added) i = Inr rows"
  by (simp add: launches_of_frame_at frame_at_append)

lemma set_outcome_new:
  "set_outcome (length fs) (fs @ [Class_counts counts]) =
     Inr (fs @ [Outcome_counts (with_outcome counts)])"
  by (simp add: set_outcome_def frame_at_new)

lemma run_update_pie_extends:
  assumes "launches_of (frames st) (spacex_df st) = Inr D"
  shows "\<exists>added. run_update_pie site st =
           Inr (update_pie D site, st\<lparr>frames := frames st @ added\<rparr>)"
proof (cases "site = ''ALL''")
  case True
  let ?selected = "Launches (filter (\<lambda>r. launch_class r = 1) D)"
  let ?counts = "groupby_size launch_site (filter (\<lambda>r. launch_class r = 1) D)"
  have "frame_at ((frames st @ [?selected]) @ [Site_counts ?counts])
          (length (frames st @ [?selected])) = Inr (Site_counts ?counts)"
    by (rule frame_at_new)
  with assms True have "run_update_pie site st =
      Inr (update_pie D site, st\<lparr>frames := frames st @ [?selected, Site_counts ?counts]\<rparr>)"
    by (simp add: run_update_pie_def new_frame_def update_pie_def success_count_def)
  then show ?thesis by blast
next
  case False
  let ?selected = "Launches (filter (\<lambda>r. launch_site r = site) D)"
  let ?counts = "groupby_size launch_class (filter (\<lambda>r. launch_site r = site) D)"
  let ?fs1 = "frames st @ [?selected]"
  have s: "set_outcome (length ?fs1) (?fs1 @ [Class_counts ?counts]) =
          Inr (?fs1 @ [Outcome_counts (with_outcome ?counts)])"
    by (rule set_outcome_new)
  have f: "frame_at (?fs1 @ [Outcome_counts (with_outcome ?counts)]) (length ?fs1) =
          Inr (Outcome_counts (with_outcome ?counts))"
    by (rule frame_at_new)
  from assms False s f have "run_update_pie site st =
      Inr (update_pie D site,
           st\<lparr>frames := frames st @ [?selected, Outcome_counts (with_outcome ?counts)]\<rparr>)"
    by (simp add: run_update_pie_def new_frame_def update_pie_def outcome_count_def)
  then show ?thesis by blast
qed

lemma run_update_scatter_extends:
  assumes "launches_of (frames st) (spacex_df st) = Inr D"
  shows "\<exists>fig added. update_scatter D site [low, high] = Inr fig \<and>
           run_update_scatter site [low, high] st = Inr (fig, st\<lparr>frames := frames st @ added\<rparr>)"
proof -
  let ?in_range = "filter (\<lambda>r. payload_mass r \<ge> low \<and> payload_mass r \<le> high) D"
  let ?of_site = "filter (\<lambda>r. launch_site r = site) ?in_range"
  let ?fs1 = "frames st @ [Launches ?in_range]"
  have l1: "launches_of ?fs1 (length (frames st)) = Inr ?in_range"
    by (rule launches_of_new)
  have l2: "launches_of (?fs1 @ [Launches ?of_site]) (length ?fs1) = Inr ?of_site"
    by (rule launches_of_new)
  show ?thesis
  proof (cases "site = ''ALL''")
    case True
    with assms l1 have "run_update_scatter site [low, high] st =
        Inr (payload_scatter site ?in_range, st\<lparr>frames := frames st @ [Launches ?in_range]\<rparr>)"
      by (simp add: run_update_scatter_def new_frame_def)
    moreover from True have "update_scatter D site [low, high] =
        Inr (payload_scatter site ?in_range)"
      by (simp add: update_scatter_def)
    ultimately show ?thesis by blast
  next
    case False
    with assms l1 l2 have "run_update_scatter site [low, high] st =
        Inr (payload_scatter site ?of_site,
             st\<lparr>frames := frames st @ [Launches ?in_range, Launches ?of_site]\<rparr>)"
      by (simp add: run_update_scatter_def new_frame_def)
    moreover from False have "update_scatter D site [low, high] =
        Inr (payload_scatter site ?of_site)"
      by (simp add: update_scatter_def)
    ultimately show ?thesis by blast
  qed
qed

text \<open>
  C9. From a state in which \<open>spacex_df\<close> names a frame with the rows \<open>D\<close>, the pie
  callback followed by the scatter callback, for any site selections and payload range,
  both return their figures (those of \<open>update_pie\<close> and \<open>update_scatter\<close> on \<open>D\<close>), and
  afterwards \<open>spacex_df\<close> names the same object, which still holds exactly the rows \<open>D\<close>
  in the same order. Every object that existed before is unchanged; the callbacks only
  add new ones.
\<close>

theorem callbacks_leave_spacex_df_unchanged:
  assumes "launches_of (frames st) (spacex_df st) = Inr D"
  shows "\<exists>st1 fig st2.
           run_update_pie site st = Inr (update_pie D site, st1) \<and>
           update_scatter D site' [low, high] = Inr fig \<and>
           run_update_scatter site' [low, high] st1 = Inr (fig, st2) \<and>
           spacex_df st1 = spacex_df st \<and>
           launches_of (frames st1) (spacex_df st1) = Inr D \<and>
           take (length (frames st)) (frames st1) = frames st \<and>
           spacex_df st2 = spacex_df st \<and>
           launches_of (frames st2) (spacex_df st2) = Inr D \<and>
           take (length (frames st)) (frames st2) = frames st"
proof -
  from run_update_pie_extends [OF assms, of site] obtain added1 where
    p: "run_update_pie site st = Inr (update_pie D site, st\<lparr>frames := frames st @ added1\<rparr>)"
    by blast
  let ?st1 = "st\<lparr>frames := frames st @ added1\<rparr>"
  have l1: "launches_of (frames ?st1) (spacex_df ?st1) = Inr D"
    using assms by (simp add: launches_of_append)
  from run_update_scatter_extends [OF l1, of site' low high] obtain fig added2 where
    f: "update_scatter D site' [low, high] = Inr fig" and
    s: "run_update_scatter site' [low, high] ?st1 =
          Inr (fig, ?st1\<lparr>frames := frames ?st1 @ added2\<rparr>)"
    by blast
  let ?st2 = "?st1\<lparr>frames := frames ?st1 @ added2\<rparr>"
  have l2: "launches_of (frames ?st2) (spacex_df ?st2) = Inr D"
    using launches_of_append [OF l1, of added2] by simp
  have "spacex_df ?st1 = spacex_df st" "take (length (frames st)) (frames ?st1) = frames st"
    "spacex_df ?st2 = spacex_df st" "take (length (frames st)) (frames ?st2) = frames st"
    by simp_all
  with p f s l1 l2 show ?thesis by blast
qed

theorem callbacks_leave_spacex_df_unchanged_witness:
  "launches_of (frames (read_csv example_launches)) (spacex_df (read_csv example_launches)) =
     Inr example_launches \<and>
   (\<exists>st1 fig st2.
      run_update_pie ''CCAFS LC-40'' (read_csv example_launches) =
        Inr (update_pie example_launches ''CCAFS LC-40'', st1) \<and>
      run_update_scatter ''ALL'' [0, 1000] st1 = Inr (fig, st2) \<and>
      frames st1 \<noteq> frames (read_csv example_launches) \<and>
      launches_of (frames st2) (spacex_df st2) = Inr example_launches)"
proof -
  have a: "launches_of (frames (read_csv example_launches)) (spacex_df (read_csv example_launches)) =
     Inr example_launches"
    by (simp add: read_csv_def launches_of_def frame_at_def)
  from callbacks_leave_spacex_df_unchanged [OF a, of "''CCAFS LC-40''" "''ALL''" 0 1000]
  obtain st1 fig st2 where
    p: "run_update_pie ''CCAFS LC-40'' (read_csv example_launches) =
          Inr (update_pie example_launches ''CCAFS LC-40'', st1)" and
    s: "run_update_scatter ''ALL'' [0, 1000] st1 = Inr (fig, st2)" and
    l: "launches_of (frames st2) (spacex_df st2) = Inr example_launches"
    by blast
  from p have "length (frames st1) = 3"
    by (auto simp: run_update_pie_def read_csv_def launches_of_def frame_at_def new_frame_def
          set_outcome_def nth_append split: prod.splits)
  then have "frames st1 \<noteq> frames (read_csv example_launches)"
    by (auto simp: read_csv_def)
  with a p s l show ?thesis by blast
qed

end
